theory Spec2Isabelle
  imports Main
begin

section \<open>Data model\<close>

text \<open>
  The script \<^verbatim>\<open>educause_meetings_map.py\<close> joins a list of meetings with a table of city
  coordinates and draws the result with a plotting library.

  Numbers. The coordinates are Python floats. A float is kept here as the source writes
  it: \<open>Dec m d\<close> is the decimal literal \<open>m / 10 ^ d\<close> (\<^verbatim>\<open>-118.1937\<close> is
  \<open>Dec (-1181937) 4\<close>), and \<open>Fadd a b\<close> is the float sum \<^verbatim>\<open>a + b\<close>, left
  uninterpreted: nothing below depends on how a sum is rounded.
\<close>

datatype pyfloat = Dec int nat | Fadd pyfloat pyfloat

text \<open>The exceptions of the Python runtime that the script's own statements can raise.\<close>

datatype py_error = IndexError | EOFError

text \<open>
  The plotting library is an external collaborator. A call into it is recorded, with its
  arguments, in the order the script makes it.
\<close>

datatype crs = LambertConformal | Geodetic

datatype feature = LAND | OCEAN | BORDERS | LAKES | RIVERS

datatype feature_opt = Linestyle string | Alpha pyfloat

datatype draw_op =
    Figure int int
  | Axes crs
  | Set_extent "pyfloat list" crs
  | Add_feature feature "feature_opt list"
  | Coastlines string
  | Plot pyfloat pyfloat string int crs
  | Text pyfloat pyfloat string crs
  | Annotate string "pyfloat \<times> pyfloat" "pyfloat \<times> pyfloat" string string crs
  | Title string
  | Show
  | Savefig string string

text \<open>
  A file holds bytes, or the image the library encoded from the calls drawn so far (the
  encoder is the library's).
\<close>

datatype content = Data string | Image string "draw_op list"

text \<open>
  What the script reads and writes outside its own variables: the file system, the lines
  waiting on standard input, what was written to standard output (one entry for each
  \<^verbatim>\<open>print\<close> and each prompt), and the calls made into the plotting library.
\<close>

record world =
  files :: "string \<rightharpoonup> content"
  stdin :: "string list"
  stdout :: "string list"
  pyplot :: "draw_op list"

definition print :: "string \<Rightarrow> world \<Rightarrow> world" where
  "print s w = w\<lparr>stdout := stdout w @ [s]\<rparr>"

definition draw :: "draw_op \<Rightarrow> world \<Rightarrow> world" where
  "draw c w = w\<lparr>pyplot := pyplot w @ [c]\<rparr>"

text \<open>
  \<^verbatim>\<open>input(prompt)\<close> writes the prompt and reads one line; with no line left it raises
  \<^verbatim>\<open>EOFError\<close>.
\<close>

definition input :: "string \<Rightarrow> world \<Rightarrow> (py_error + string) \<times> world" where
  "input prompt w =
     (let w1 = w\<lparr>stdout := stdout w @ [prompt]\<rparr> in
      case stdin w1 of
        [] \<Rightarrow> (Inl EOFError, w1)
      | l # ls \<Rightarrow> (Inr l, w1\<lparr>stdin := ls\<rparr>))"

text \<open>\<^verbatim>\<open>xs[i]\<close> for an index that is not negative.\<close>

definition index :: "'a list \<Rightarrow> nat \<Rightarrow> py_error + 'a" where
  "index xs i = (if i < length xs then Inr (xs ! i) else Inl IndexError)"

text \<open>
  \<^verbatim>\<open>str.lower\<close>: the letters A to Z are mapped to a to z. (Python also lowers letters
  outside ASCII; none of them becomes an ASCII letter, so the comparison with \<^verbatim>\<open>'y'\<close>
  that the script makes is the same.)
\<close>

definition lower_char :: "char \<Rightarrow> char" where
  "lower_char c =
     (let n = (of_char c :: nat) in if 65 \<le> n \<and> n \<le> 90 then char_of (n + 32) else c)"

definition lower :: "string \<Rightarrow> string" where
  "lower s = map lower_char s"

text \<open>\<^verbatim>\<open>str(k)\<close> for an integer, as an f-string formats it.\<close>

fun str_nat :: "nat \<Rightarrow> string" where
  "str_nat n =
     (if n < 10 then [''0123456789'' ! n]
      else str_nat (n div 10) @ [''0123456789'' ! (n mod 10)])"

declare str_nat.simps [simp del]

definition str_int :: "int \<Rightarrow> string" where
  "str_int k = (if k < 0 then ''-'' @ str_nat (nat (- k)) else str_nat (nat k))"

section \<open>The static tables\<close>

definition meetings :: "(int \<times> string) list" where
  "meetings =
    [(1999, ''Long Beach, California''),
     (2000, ''Nashville, Tennessee''),
     (2001, ''Indianapolis, Indiana''),
     (2002, ''Atlanta, Georgia''),
     (2003, ''Anaheim, California''),
     (2004, ''Denver, Colorado''),
     (2005, ''Orlando, Florida''),
     (2006, ''Dallas, Texas''),
     (2007, ''Seattle, Washington''),
     (2008, ''Orlando, Florida''),
     (2009, ''Denver, Colorado''),
     (2010, ''Anaheim, California''),
     (2011, ''Philadelphia, Pennsylvania''),
     (2012, ''Denver, Colorado''),
     (2013, ''Anaheim, California''),
     (2014, ''Orlando, Florida''),
     (2015, ''Indianapolis, Indiana''),
     (2016, ''Anaheim, California''),
     (2017, ''Philadelphia, Pennsylvania''),
     (2018, ''Denver, Colorado''),
     (2019, ''Chicago, Illinois''),
     (2021, ''Philadelphia, Pennsylvania''),
     (2022, ''Denver, Colorado''),
     (2023, ''Chicago, Illinois''),
     (2024, ''San Antonio, Texas'')]"

text \<open>
  The dict literal, entry by entry. Its keys are pairwise different, so the lookup of a
  key finds the one entry written for it.
\<close>

definition city_coords_items :: "(string \<times> pyfloat \<times> pyfloat) list" where
  "city_coords_items =
    [(''Long Beach, California'', (Dec 337701 4, Dec (- 1181937) 4)),
     (''Nashville, Tennessee'', (Dec 361627 4, Dec (- 867816) 4)),
     (''Indianapolis, Indiana'', (Dec 397684 4, Dec (- 861581) 4)),
     (''Atlanta, Georgia'', (Dec 337490 4, Dec (- 843880) 4)),
     (''Anaheim, California'', (Dec 338366 4, Dec (- 1179143) 4)),
     (''Denver, Colorado'', (Dec 397392 4, Dec (- 1049903) 4)),
     (''Orlando, Florida'', (Dec 285383 4, Dec (- 813792) 4)),
     (''Dallas, Texas'', (Dec 327767 4, Dec (- 967970) 4)),
     (''Seattle, Washington'', (Dec 476062 4, Dec (- 1223321) 4)),
     (''Philadelphia, Pennsylvania'', (Dec 399526 4, Dec (- 751652) 4)),
     (''Chicago, Illinois'', (Dec 418781 4, Dec (- 876298) 4)),
     (''San Antonio, Texas'', (Dec 294241 4, Dec (- 984936) 4))]"

definition city_coords :: "string \<rightharpoonup> pyfloat \<times> pyfloat" where
  "city_coords = map_of city_coords_items"

section \<open>The join: \<^verbatim>\<open>get_coordinates\<close>\<close>

text \<open>
  The four lists the function builds and returns, in the order
  \<^verbatim>\<open>lats, lons, years, locations\<close>.
\<close>

type_synonym joined = "pyfloat list \<times> pyfloat list \<times> int list \<times> string list"

text \<open>
  One round of the loop over the meetings. The table is the module's \<^verbatim>\<open>city_coords\<close>,
  read when the function runs; it is a parameter here. A value of the table is a pair,
  which Python takes as true, so \<^verbatim>\<open>if coords:\<close> asks whether the key was found.
\<close>

fun join_step ::
  "(string \<rightharpoonup> pyfloat \<times> pyfloat) \<Rightarrow> int \<times> string \<Rightarrow> joined \<times> world \<Rightarrow> joined \<times> world" where
  "join_step table (year, location) ((lats, lons, years, locations), w) =
     (if location = ''Virtual due to COVID-19'' then ((lats, lons, years, locations), w)
      else
        (case table location of
           Some (lat, lon) \<Rightarrow>
             ((lats @ [lat], lons @ [lon], years @ [year], locations @ [location]), w)
         | None \<Rightarrow>
             ((lats, lons, years, locations),
              print (''Coordinates for '' @ location @ '' not found.'') w)))"

fun join_loop ::
  "(string \<rightharpoonup> pyfloat \<times> pyfloat) \<Rightarrow> (int \<times> string) list \<Rightarrow> joined \<times> world \<Rightarrow> joined \<times> world" where
  "join_loop table [] s = s"
| "join_loop table (m # ms) s = join_loop table ms (join_step table m s)"

definition get_coordinates_from ::
  "(string \<rightharpoonup> pyfloat \<times> pyfloat) \<Rightarrow> (int \<times> string) list \<Rightarrow> world \<Rightarrow> joined \<times> world" where
  "get_coordinates_from table ms w = join_loop table ms (([], [], [], []), w)"

definition get_coordinates :: "(int \<times> string) list \<Rightarrow> world \<Rightarrow> joined \<times> world" where
  "get_coordinates ms w = get_coordinates_from city_coords ms w"

section \<open>The renderer\<close>

text \<open>
  \<^verbatim>\<open>for i in range(n): body\<close>, where the body may raise: the loop stops at the first
  exception, and the calls drawn until then stay drawn.
\<close>

fun for_each ::
  "(nat \<Rightarrow> world \<Rightarrow> py_error option \<times> world) \<Rightarrow> nat list \<Rightarrow> world \<Rightarrow> py_error option \<times> world" where
  "for_each body [] w = (None, w)"
| "for_each body (i # is) w =
     (case body i w of
        (Some e, w') \<Rightarrow> (Some e, w')
      | (None, w') \<Rightarrow> for_each body is w')"

text \<open>
  The body of the loop of \<^verbatim>\<open>plot_meetings\<close>. The arguments of a call are evaluated from
  left to right before the call is made, so an index out of range raises before the call
  it belongs to. The numbers \<^verbatim>\<open>0.5\<close> are \<open>Dec 5 1\<close>.
\<close>

definition plot_meetings_body ::
  "pyfloat list \<Rightarrow> pyfloat list \<Rightarrow> int list \<Rightarrow> string list \<Rightarrow> nat \<Rightarrow> world \<Rightarrow> py_error option \<times> world" where
  "plot_meetings_body lats lons years locations i w =
     (case index lons i of Inl e \<Rightarrow> (Some e, w) | Inr lon \<Rightarrow>
      case index lats i of Inl e \<Rightarrow> (Some e, w) | Inr lat \<Rightarrow>
      let w1 = draw (Plot lon lat ''ro'' 5 Geodetic) w in
      case index years i of Inl e \<Rightarrow> (Some e, w1) | Inr year \<Rightarrow>
      case index locations i of Inl e \<Rightarrow> (Some e, w1) | Inr location \<Rightarrow>
      let w2 = draw (Text (Fadd lon (Dec 5 1)) (Fadd lat (Dec 5 1))
                       (str_int year @ '': '' @ location) Geodetic) w1 in
      if i > 0 then
        (case index lons (i - 1) of Inl e \<Rightarrow> (Some e, w2) | Inr lon0 \<Rightarrow>
         case index lats (i - 1) of Inl e \<Rightarrow> (Some e, w2) | Inr lat0 \<Rightarrow>
         (None, draw (Annotate '''' (lon, lat) (lon0, lat0) ''->'' ''blue'' Geodetic) w2))
      else (None, w2))"

definition plot_meetings ::
  "pyfloat list \<Rightarrow> pyfloat list \<Rightarrow> int list \<Rightarrow> string list \<Rightarrow> world \<Rightarrow> py_error option \<times> world" where
  "plot_meetings lats lons years locations w =
     (let w = draw (Figure 15 10) w;
          w = draw (Axes LambertConformal) w;
          w = draw (Set_extent [Dec (- 125) 0, Dec (- 665) 1, Dec 20 0, Dec 50 0] Geodetic) w;
          w = draw (Add_feature LAND []) w;
          w = draw (Add_feature OCEAN []) w;
          w = draw (Add_feature BORDERS [Linestyle '':'']) w;
          w = draw (Add_feature LAKES [Alpha (Dec 5 1)]) w;
          w = draw (Add_feature RIVERS []) w;
          w = draw (Coastlines ''50m'') w
      in case for_each (plot_meetings_body lats lons years locations) [0..<length lats] w of
           (Some e, w) \<Rightarrow> (Some e, w)
         | (None, w) \<Rightarrow>
             (let w = draw (Title ''Educause Annual Meeting Locations (1999-2024)'') w;
                  w = draw Show w
              in (None, w)))"

section \<open>The output stage and \<^verbatim>\<open>main\<close>\<close>

text \<open>\<^verbatim>\<open>os.path.exists\<close> asks the file system; the answer of the user is lowered.\<close>

definition confirm_overwrite :: "string \<Rightarrow> world \<Rightarrow> (py_error + bool) \<times> world" where
  "confirm_overwrite filepath w =
     (if files w filepath \<noteq> None then
        (case input (''File '' @ [CHR 0x22] @ filepath @ [CHR 0x22] @ '' exists. Overwrite? (y/n): '') w of
           (Inl e, w') \<Rightarrow> (Inl e, w')
         | (Inr response, w') \<Rightarrow> (Inr (lower response = ''y''), w'))
      else (Inr True, w))"

text \<open>
  \<^verbatim>\<open>plt.savefig\<close> is a call into the library that also writes the file. (A failure of
  the library, such as a disk that is full, is outside this model.)
\<close>

definition savefig :: "string \<Rightarrow> string \<Rightarrow> world \<Rightarrow> world" where
  "savefig path fmt w =
     draw (Savefig path fmt) (w\<lparr>files := (files w)(path \<mapsto> Image fmt (pyplot w))\<rparr>)"

text \<open>What the command line parser hands to \<^verbatim>\<open>main\<close>: \<^verbatim>\<open>args.output\<close> and
  \<^verbatim>\<open>args.format\<close>. The parser is the library's.\<close>

record namespace =
  arg_output :: string
  arg_format :: string

text \<open>
  How a run ends: \<^verbatim>\<open>main\<close> returns, \<^verbatim>\<open>sys.exit\<close> is called, or an exception is not
  caught. The status of the process follows.
\<close>

datatype outcome = Returned | SystemExit int | Uncaught py_error

fun exit_status :: "outcome \<Rightarrow> int" where
  "exit_status Returned = 0"
| "exit_status (SystemExit k) = k"
| "exit_status (Uncaught e) = 1"

text \<open>The body of the loop that \<^verbatim>\<open>main\<close> itself contains.\<close>

definition main_body ::
  "pyfloat list \<Rightarrow> pyfloat list \<Rightarrow> int list \<Rightarrow> string list \<Rightarrow> nat \<Rightarrow> world \<Rightarrow> py_error option \<times> world" where
  "main_body lats lons years locations i w =
     (case index lons i of Inl e \<Rightarrow> (Some e, w) | Inr lon \<Rightarrow>
      case index lats i of Inl e \<Rightarrow> (Some e, w) | Inr lat \<Rightarrow>
      let w1 = draw (Plot lon lat ''ro'' 5 Geodetic) w in
      case index years i of Inl e \<Rightarrow> (Some e, w1) | Inr year \<Rightarrow>
      case index locations i of Inl e \<Rightarrow> (Some e, w1) | Inr location \<Rightarrow>
      let w2 = draw (Text (Fadd lon (Dec 5 1)) (Fadd lat (Dec 5 1))
                       (str_int year @ '': '' @ location) Geodetic) w1 in
      if i > 0 then
        (case index lons (i - 1) of Inl e \<Rightarrow> (Some e, w2) | Inr lon0 \<Rightarrow>
         case index lats (i - 1) of Inl e \<Rightarrow> (Some e, w2) | Inr lat0 \<Rightarrow>
         (None, draw (Annotate '''' (lon, lat) (lon0, lat0) ''->'' ''blue'' Geodetic) w2))
      else (None, w2))"

text \<open>
  The part of \<^verbatim>\<open>main\<close> from \<^verbatim>\<open>plt.figure\<close> to \<^verbatim>\<open>plt.title\<close>, on the four lists
  that the join returned.
\<close>

definition main_render ::
  "pyfloat list \<Rightarrow> pyfloat list \<Rightarrow> int list \<Rightarrow> string list \<Rightarrow> world \<Rightarrow> py_error option \<times> world" where
  "main_render lats lons years locations w =
     (let w = draw (Figure 15 10) w;
          w = draw (Axes LambertConformal) w;
          w = draw (Set_extent [Dec (- 125) 0, Dec (- 665) 1, Dec 20 0, Dec 50 0] Geodetic) w;
          w = draw (Add_feature LAND []) w;
          w = draw (Add_feature OCEAN []) w;
          w = draw (Add_feature BORDERS [Linestyle '':'']) w;
          w = draw (Add_feature LAKES [Alpha (Dec 5 1)]) w;
          w = draw (Add_feature RIVERS []) w;
          w = draw (Coastlines ''50m'') w
      in case for_each (main_body lats lons years locations) [0..<length lats] w of
           (Some e, w) \<Rightarrow> (Some e, w)
         | (None, w) \<Rightarrow>
             (None, draw (Title ''Educause Annual Meeting Locations (1999-2024)'') w))"

definition main :: "namespace \<Rightarrow> world \<Rightarrow> outcome \<times> world" where
  "main args w =
     (let output_file = arg_output args @ ''.'' @ arg_format args in
      case confirm_overwrite output_file w of
        (Inl e, w) \<Rightarrow> (Uncaught e, w)
      | (Inr confirmed, w) \<Rightarrow>
          if \<not> confirmed then (SystemExit 0, print ''Operation cancelled by the user.'' w)
          else
            (case get_coordinates meetings w of
               ((lats, lons, years, locations), w) \<Rightarrow>
                 (case main_render lats lons years locations w of
                    (Some e, w) \<Rightarrow> (Uncaught e, w)
                  | (None, w) \<Rightarrow>
                      (let w = savefig output_file (arg_format args) w;
                           w = print (''Map saved to '' @ output_file) w
                       in (Returned, w)))))"

section \<open>Observing a run\<close>

text \<open>
  The calls a piece of the script added to the library's record, and the three kinds of
  call the properties speak of: a marker (\<^verbatim>\<open>ax.plot\<close>), a text label
  (\<^verbatim>\<open>ax.text\<close>) and an arrow (\<^verbatim>\<open>ax.annotate\<close> with \<^verbatim>\<open>arrowprops\<close>; the arrow runs
  from \<^verbatim>\<open>xytext\<close>, the third argument here, to \<^verbatim>\<open>xy\<close>, the second).
\<close>

definition drawn :: "world \<Rightarrow> world \<Rightarrow> draw_op list" where
  "drawn w w' = drop (length (pyplot w)) (pyplot w')"

fun is_marker :: "draw_op \<Rightarrow> bool" where
  "is_marker (Plot x y fmt msize t) = True"
| "is_marker c = False"

fun is_label :: "draw_op \<Rightarrow> bool" where
  "is_label (Text x y s t) = True"
| "is_label c = False"

fun is_arrow :: "draw_op \<Rightarrow> bool" where
  "is_arrow (Annotate s xy xytext style colour t) = True"
| "is_arrow c = False"

text \<open>
  Two abbreviations for the proofs: the calls before the loop, and the calls of one round
  of the loop when no index is out of range.
\<close>

definition setup_ops :: "draw_op list" where
  "setup_ops =
     [Figure 15 10, Axes LambertConformal,
      Set_extent [Dec (- 125) 0, Dec (- 665) 1, Dec 20 0, Dec 50 0] Geodetic,
      Add_feature LAND [], Add_feature OCEAN [], Add_feature BORDERS [Linestyle '':''],
      Add_feature LAKES [Alpha (Dec 5 1)], Add_feature RIVERS [], Coastlines ''50m'']"

definition point_ops ::
  "pyfloat list \<Rightarrow> pyfloat list \<Rightarrow> int list \<Rightarrow> string list \<Rightarrow> nat \<Rightarrow> draw_op list" where
  "point_ops lats lons years locations i =
     [Plot (lons ! i) (lats ! i) ''ro'' 5 Geodetic,
      Text (Fadd (lons ! i) (Dec 5 1)) (Fadd (lats ! i) (Dec 5 1))
        (str_int (years ! i) @ '': '' @ locations ! i) Geodetic] @
     (if i > 0
      then [Annotate '''' (lons ! i, lats ! i) (lons ! (i - 1), lats ! (i - 1))
              ''->'' ''blue'' Geodetic]
      else [])"

section \<open>Lemmas on the join\<close>

lemma virtual_unmapped: "city_coords ''Virtual due to COVID-19'' = None"
  by (simp add: city_coords_def city_coords_items_def)

text \<open>
  The loop in closed form: the records kept are those that are not virtual and whose city
  the table has, in the order of the input; a diagnostic is printed for each of the other
  records that is not virtual.
\<close>

lemma join_loop_closed:
  "join_loop table ms ((la, lo, ys, ls), w) =
     ((la @ map (\<lambda>(y, c). fst (the (table c)))
              (filter (\<lambda>(y, c). c \<noteq> ''Virtual due to COVID-19'' \<and> table c \<noteq> None) ms),
       lo @ map (\<lambda>(y, c). snd (the (table c)))
              (filter (\<lambda>(y, c). c \<noteq> ''Virtual due to COVID-19'' \<and> table c \<noteq> None) ms),
       ys @ map fst
              (filter (\<lambda>(y, c). c \<noteq> ''Virtual due to COVID-19'' \<and> table c \<noteq> None) ms),
       ls @ map snd
              (filter (\<lambda>(y, c). c \<noteq> ''Virtual due to COVID-19'' \<and> table c \<noteq> None) ms)),
      w\<lparr>stdout := stdout w @ map (\<lambda>(y, c). ''Coordinates for '' @ c @ '' not found.'')
              (filter (\<lambda>(y, c). c \<noteq> ''Virtual due to COVID-19'' \<and> table c = None) ms)\<rparr>)"
proof (induction ms arbitrary: la lo ys ls w)
  case Nil
  then show ?case by simp
next
  case (Cons m ms)
  obtain y c where m: "m = (y, c)" by (cases m)
  show ?case
    by (cases "table c") (auto simp: m Cons.IH print_def)
qed

lemma get_coordinates_from_closed:
  "get_coordinates_from table ms w =
     ((map (\<lambda>(y, c). fst (the (table c)))
         (filter (\<lambda>(y, c). c \<noteq> ''Virtual due to COVID-19'' \<and> table c \<noteq> None) ms),
       map (\<lambda>(y, c). snd (the (table c)))
         (filter (\<lambda>(y, c). c \<noteq> ''Virtual due to COVID-19'' \<and> table c \<noteq> None) ms),
       map fst (filter (\<lambda>(y, c). c \<noteq> ''Virtual due to COVID-19'' \<and> table c \<noteq> None) ms),
       map snd (filter (\<lambda>(y, c). c \<noteq> ''Virtual due to COVID-19'' \<and> table c \<noteq> None) ms)),
      w\<lparr>stdout := stdout w @ map (\<lambda>(y, c). ''Coordinates for '' @ c @ '' not found.'')
              (filter (\<lambda>(y, c). c \<noteq> ''Virtual due to COVID-19'' \<and> table c = None) ms)\<rparr>)"
  unfolding get_coordinates_from_def join_loop_closed by simp

lemma mapped_not_virtual:
  "(\<lambda>(y, c). c \<noteq> ''Virtual due to COVID-19'' \<and> city_coords c \<noteq> None) =
   (\<lambda>(y :: int, c). city_coords c \<noteq> None)"
  using virtual_unmapped by (auto simp: fun_eq_iff)

section \<open>Lemmas on the renderer\<close>

lemma main_body_ok:
  assumes "i < length lats" "length lons = length lats" "length years = length lats"
    "length locations = length lats"
  shows "main_body lats lons years locations i w =
    (None, w\<lparr>pyplot := pyplot w @ point_ops lats lons years locations i\<rparr>)"
proof -
  have "i - 1 < length lats" using assms(1) by arith
  then show ?thesis
    using assms by (simp add: main_body_def index_def point_ops_def draw_def Let_def)
qed

lemma plot_meetings_body_eq: "plot_meetings_body = main_body"
  by (intro ext) (simp add: plot_meetings_body_def main_body_def)

lemma for_each_ok:
  assumes "\<And>i w. i \<in> set ns \<Longrightarrow> body i w = (None, w\<lparr>pyplot := pyplot w @ f i\<rparr>)"
  shows "for_each body ns w = (None, w\<lparr>pyplot := pyplot w @ concat (map f ns)\<rparr>)"
  using assms
proof (induction ns arbitrary: w)
  case Nil
  then show ?case by simp
next
  case (Cons n ns)
  have "body n w = (None, w\<lparr>pyplot := pyplot w @ f n\<rparr>)" using Cons.prems by simp
  moreover have "for_each body ns (w\<lparr>pyplot := pyplot w @ f n\<rparr>) =
      (None, w\<lparr>pyplot := pyplot w @ f n @ concat (map f ns)\<rparr>)"
    using Cons.IH [of "w\<lparr>pyplot := pyplot w @ f n\<rparr>"] Cons.prems by simp
  ultimately show ?case by simp
qed

lemma main_render_ok:
  assumes "length lons = length lats" "length years = length lats"
    "length locations = length lats"
  shows "main_render lats lons years locations w =
    (None, w\<lparr>pyplot := pyplot w @ setup_ops @
        concat (map (point_ops lats lons years locations) [0..<length lats]) @
        [Title ''Educause Annual Meeting Locations (1999-2024)'']\<rparr>)"
proof -
  let ?w = "w\<lparr>pyplot := pyplot w @ setup_ops\<rparr>"
  have "for_each (main_body lats lons years locations) [0..<length lats] ?w =
     (None, ?w\<lparr>pyplot := pyplot ?w @
        concat (map (point_ops lats lons years locations) [0..<length lats])\<rparr>)"
    by (rule for_each_ok) (simp add: main_body_ok assms)
  then show ?thesis
    by (simp add: main_render_def draw_def setup_ops_def)
qed

lemma filter_arrow_points:
  "filter is_arrow (concat (map (point_ops lats lons years locations) ns)) =
   map (\<lambda>i. Annotate '''' (lons ! i, lats ! i) (lons ! (i - 1), lats ! (i - 1))
              ''->'' ''blue'' Geodetic)
     (filter (\<lambda>i. i > 0) ns)"
  by (induction ns) (simp_all add: point_ops_def)

lemma filter_label_points:
  "filter is_label (concat (map (point_ops lats lons years locations) ns)) =
   map (\<lambda>i. Text (Fadd (lons ! i) (Dec 5 1)) (Fadd (lats ! i) (Dec 5 1))
              (str_int (years ! i) @ '': '' @ locations ! i) Geodetic) ns"
  by (induction ns) (simp_all add: point_ops_def)

lemma filter_marker_points:
  "filter is_marker (concat (map (point_ops lats lons years locations) ns)) =
   map (\<lambda>i. Plot (lons ! i) (lats ! i) ''ro'' 5 Geodetic) ns"
  by (induction ns) (simp_all add: point_ops_def)

lemma filter_pos_upt: "filter (\<lambda>i. i > 0) [0..<n] = [1..<n]"
  by (induction n) auto

lemma plot_meetings_unfold:
  "plot_meetings lats lons years locations w =
     (case main_render lats lons years locations w of
        (Some e, w') \<Rightarrow> (Some e, w')
      | (None, w') \<Rightarrow> (None, draw Show w'))"
  by (simp add: plot_meetings_def main_render_def plot_meetings_body_eq Let_def
      split: prod.splits option.splits)

lemma plot_meetings_ok:
  assumes "length lons = length lats" "length years = length lats"
    "length locations = length lats"
  shows "plot_meetings lats lons years locations w =
    (None, w\<lparr>pyplot := pyplot w @ setup_ops @
        concat (map (point_ops lats lons years locations) [0..<length lats]) @
        [Title ''Educause Annual Meeting Locations (1999-2024)'', Show]\<rparr>)"
  by (simp add: plot_meetings_unfold main_render_ok [OF assms] draw_def)

lemma no_points_in_setup:
  "filter is_marker setup_ops = []" "filter is_label setup_ops = []"
  "filter is_arrow setup_ops = []"
  by (simp_all add: setup_ops_def)

section \<open>Lemmas on the answer to the prompt\<close>

lemma lower_char_y: "lower_char c = CHR ''y'' \<longleftrightarrow> c = CHR ''y'' \<or> c = CHR ''Y''"
proof
  assume a: "lower_char c = CHR ''y''"
  show "c = CHR ''y'' \<or> c = CHR ''Y''"
  proof (cases "65 \<le> (of_char c :: nat) \<and> (of_char c :: nat) \<le> 90")
    case True
    then have "char_of (of_char c + 32 :: nat) = CHR ''y''"
      using a by (simp add: lower_char_def Let_def)
    then have "(of_char (char_of (of_char c + 32 :: nat)) :: nat) = of_char (CHR ''y'')"
      by (rule arg_cong)
    then have "(of_char c :: nat) = 89" using True by simp
    then have "char_of (of_char c :: nat) = (char_of (89 :: nat) :: char)" by (rule arg_cong)
    moreover have "char_of (89 :: nat) = CHR ''Y''" by code_simp
    ultimately show ?thesis by simp
  next
    case False
    then show ?thesis using a by (auto simp: lower_char_def Let_def split: if_splits)
  qed
next
  have "char_of (121 :: nat) = CHR ''y''" by code_simp
  moreover assume "c = CHR ''y'' \<or> c = CHR ''Y''"
  ultimately show "lower_char c = CHR ''y''"
    by (auto simp: lower_char_def Let_def)
qed

lemma lower_is_y: "lower s = ''y'' \<longleftrightarrow> s = ''y'' \<or> s = ''Y''"
proof -
  have "lower s = ''y'' \<longleftrightarrow> (\<exists>c. s = [c] \<and> lower_char c = CHR ''y'')"
    by (cases s) (auto simp: lower_def)
  then show ?thesis by (auto simp: lower_char_y)
qed

section \<open>Lemmas on the static tables and on \<^verbatim>\<open>main\<close>\<close>

lemma meetings_all_mapped:
  "filter (\<lambda>(y, c). c \<noteq> ''Virtual due to COVID-19'' \<and> city_coords c \<noteq> None) meetings =
   meetings"
  by (simp add: meetings_def city_coords_def city_coords_items_def)

lemma meetings_none_unmapped:
  "filter (\<lambda>(y, c). c \<noteq> ''Virtual due to COVID-19'' \<and> city_coords c = None) meetings = []"
  by (simp add: meetings_def city_coords_def city_coords_items_def)

lemma length_meetings: "length meetings = 25"
  by (simp add: meetings_def)

lemma meetings_list_all: "list_all (\<lambda>(year, city). city_coords city \<noteq> None) meetings"
  by (simp add: meetings_def city_coords_def city_coords_items_def)

lemma get_coordinates_meetings:
  "get_coordinates meetings w =
     ((map (\<lambda>(y, c). fst (the (city_coords c))) meetings,
       map (\<lambda>(y, c). snd (the (city_coords c))) meetings,
       map fst meetings, map snd meetings), w)"
  unfolding get_coordinates_def get_coordinates_from_closed meetings_all_mapped
    meetings_none_unmapped
  by simp

lemma confirm_overwrite_asked:
  "files w p = Some old \<Longrightarrow> stdin w = r # rest \<Longrightarrow>
   confirm_overwrite p w =
     (Inr (r = ''y'' \<or> r = ''Y''),
      w\<lparr>stdout := stdout w @
           [''File '' @ [CHR 0x22] @ p @ [CHR 0x22] @ '' exists. Overwrite? (y/n): ''],
        stdin := rest\<rparr>)"
  by (simp add: confirm_overwrite_def input_def lower_is_y)

lemma confirm_overwrite_pyplot:
  "confirm_overwrite p w = (r, w1) \<Longrightarrow> pyplot w1 = pyplot w"
  by (auto simp: confirm_overwrite_def input_def Let_def split: if_splits list.splits)

lemma main_cancelled:
  assumes "confirm_overwrite (arg_output args @ ''.'' @ arg_format args) w = (Inr False, w1)"
  shows "main args w = (SystemExit 0, print ''Operation cancelled by the user.'' w1)"
  using assms by (simp add: main_def Let_def)

lemma main_proceeds:
  assumes "confirm_overwrite (arg_output args @ ''.'' @ arg_format args) w = (Inr True, w1)"
  shows "main args w =
    (Returned,
     print (''Map saved to '' @ arg_output args @ ''.'' @ arg_format args)
       (savefig (arg_output args @ ''.'' @ arg_format args) (arg_format args)
         (w1\<lparr>pyplot := pyplot w1 @ setup_ops @
            concat (map (point_ops (map (\<lambda>(y, c). fst (the (city_coords c))) meetings)
                        (map (\<lambda>(y, c). snd (the (city_coords c))) meetings)
                        (map fst meetings) (map snd meetings)) [0..<length meetings]) @
            [Title ''Educause Annual Meeting Locations (1999-2024)'']\<rparr>)))"
  using assms by (simp add: main_def Let_def get_coordinates_meetings main_render_ok)

section \<open>Properties of the join\<close>

text \<open>
  C1. For every list of meetings, the four lists that \<^verbatim>\<open>get_coordinates\<close> returns hold
  one entry for each record whose city is a key of \<^verbatim>\<open>city_coords\<close>, and nothing else:
  the latitude and the longitude the table gives for the city, the year and the city of
  the record, in the order of the records in the input.
\<close>

theorem get_coordinates_mapped_records_in_order:
  "fst (get_coordinates ms w) =
     (map (\<lambda>(year, city). fst (the (city_coords city)))
        (filter (\<lambda>(year, city). city_coords city \<noteq> None) ms),
      map (\<lambda>(year, city). snd (the (city_coords city)))
        (filter (\<lambda>(year, city). city_coords city \<noteq> None) ms),
      map fst (filter (\<lambda>(year, city). city_coords city \<noteq> None) ms),
      map snd (filter (\<lambda>(year, city). city_coords city \<noteq> None) ms))"
  unfolding get_coordinates_def get_coordinates_from_closed mapped_not_virtual by simp

theorem get_coordinates_mapped_records_in_order_witness:
  "fst (get_coordinates
     [(1999, ''Long Beach, California''), (2020, ''Virtual due to COVID-19''),
      (2025, ''Nowhere, Nowhere''), (2000, ''Nashville, Tennessee'')]
     \<lparr>files = Map.empty, stdin = [], stdout = [], pyplot = []\<rparr>) =
   ([Dec 337701 4, Dec 361627 4], [Dec (- 1181937) 4, Dec (- 867816) 4], [1999, 2000],
    [''Long Beach, California'', ''Nashville, Tennessee''])"
  using get_coordinates_mapped_records_in_order
    [of "[(1999, ''Long Beach, California''), (2020, ''Virtual due to COVID-19''),
          (2025, ''Nowhere, Nowhere''), (2000, ''Nashville, Tennessee'')]"
        "\<lparr>files = Map.empty, stdin = [], stdout = [], pyplot = []\<rparr>"]
  by (simp add: city_coords_def city_coords_items_def)

text \<open>
  C2 (amended). For every list of meetings and every table, the join prints one
  diagnostic \<^verbatim>\<open>Coordinates for {city} not found.\<close> for each record whose city the table
  does not have and is not \<^verbatim>\<open>'Virtual due to COVID-19'\<close>, in the order of the records, and
  prints nothing else; the entries it returns are those of the other records that are
  not virtual, so a record without coordinates gives no entry. It changes nothing but
  the output, and it returns for every input.
\<close>

theorem unmapped_records_reported_once:
  "(case get_coordinates_from table ms w of
      ((lats, lons, years, locations), w') \<Rightarrow>
        stdout w' = stdout w @
          map (\<lambda>(year, city). ''Coordinates for '' @ city @ '' not found.'')
            (filter (\<lambda>(year, city). city \<noteq> ''Virtual due to COVID-19'' \<and> table city = None)
               ms) \<and>
        zip years locations =
          filter (\<lambda>(year, city). city \<noteq> ''Virtual due to COVID-19'' \<and> table city \<noteq> None) ms \<and>
        length lats = length locations \<and> length lons = length locations \<and>
        length years = length locations \<and>
        files w' = files w \<and> stdin w' = stdin w \<and> pyplot w' = pyplot w)"
  unfolding get_coordinates_from_closed by (simp add: zip_map_fst_snd)

theorem unmapped_records_reported_once_witness:
  "(case get_coordinates_from city_coords
           [(1999, ''Long Beach, California''), (2025, ''Nowhere, Nowhere'')]
           \<lparr>files = Map.empty, stdin = [], stdout = [], pyplot = []\<rparr> of
      ((lats, lons, years, locations), w') \<Rightarrow>
        stdout w' = [''Coordinates for Nowhere, Nowhere not found.''] \<and>
        zip years locations = [(1999, ''Long Beach, California'')] \<and>
        length lats = length locations \<and> length lons = length locations)"
  using unmapped_records_reported_once [where table = city_coords
      and ms = "[(1999, ''Long Beach, California''), (2025, ''Nowhere, Nowhere'')]"
      and w = "\<lparr>files = Map.empty, stdin = [], stdout = [], pyplot = []\<rparr>"]
  by (simp add: city_coords_def city_coords_items_def split: prod.splits)

text \<open>
  C2 as it is written fails: \<^verbatim>\<open>'Virtual due to COVID-19'\<close> is not a key of the table,
  and the join of a record with this city prints no diagnostic.
\<close>

theorem virtual_record_not_reported:
  "city_coords ''Virtual due to COVID-19'' = None \<and>
   stdout (snd (get_coordinates [(2020, ''Virtual due to COVID-19'')]
      \<lparr>files = Map.empty, stdin = [], stdout = [], pyplot = []\<rparr>)) = []"
  by (simp add: get_coordinates_def get_coordinates_from_def virtual_unmapped)

text \<open>
  C3. A record whose city is exactly \<^verbatim>\<open>'Virtual due to COVID-19'\<close> leaves no trace:
  the join of a list that holds it returns the same four lists, and leaves the same
  output, as the join of the list without it. This holds for every table, also one that
  has this string as a key: the record is dropped before the table is asked. Every other
  city that the table does not have is reported.
\<close>

theorem virtual_record_dropped_silently:
  "get_coordinates_from table (before @ (year, ''Virtual due to COVID-19'') # after) w =
     get_coordinates_from table (before @ after) w \<and>
   (location \<noteq> ''Virtual due to COVID-19'' \<and> table location = None \<longrightarrow>
     get_coordinates_from table [(year, location)] w =
       (([], [], [], []), print (''Coordinates for '' @ location @ '' not found.'') w))"
  unfolding get_coordinates_from_closed by (simp add: print_def)

theorem virtual_record_dropped_silently_witness:
  "get_coordinates_from (city_coords(''Virtual due to COVID-19'' \<mapsto> (Dec 0 0, Dec 0 0)))
     ([(1999, ''Long Beach, California'')] @ (2020, ''Virtual due to COVID-19'') # [])
     \<lparr>files = Map.empty, stdin = [], stdout = [], pyplot = []\<rparr> =
   get_coordinates_from (city_coords(''Virtual due to COVID-19'' \<mapsto> (Dec 0 0, Dec 0 0)))
     ([(1999, ''Long Beach, California'')] @ [])
     \<lparr>files = Map.empty, stdin = [], stdout = [], pyplot = []\<rparr> \<and>
   ''Nowhere, Nowhere'' \<noteq> ''Virtual due to COVID-19'' \<and>
   (city_coords(''Virtual due to COVID-19'' \<mapsto> (Dec 0 0, Dec 0 0))) ''Nowhere, Nowhere'' = None \<and>
   get_coordinates_from (city_coords(''Virtual due to COVID-19'' \<mapsto> (Dec 0 0, Dec 0 0)))
     [(2020, ''Nowhere, Nowhere'')]
     \<lparr>files = Map.empty, stdin = [], stdout = [], pyplot = []\<rparr> =
   (([], [], [], []),
    print ''Coordinates for Nowhere, Nowhere not found.''
      \<lparr>files = Map.empty, stdin = [], stdout = [], pyplot = []\<rparr>)"
  using virtual_record_dropped_silently
    [of "city_coords(''Virtual due to COVID-19'' \<mapsto> (Dec 0 0, Dec 0 0))"
        "[(1999, ''Long Beach, California'')]" 2020 "[]"
        "\<lparr>files = Map.empty, stdin = [], stdout = [], pyplot = []\<rparr>" "''Nowhere, Nowhere''"]
  by (simp add: city_coords_def city_coords_items_def)

text \<open>
  C4. For every list of meetings (and every table), the four lists returned by the join
  have the same length.
\<close>

theorem get_coordinates_equal_lengths:
  "(case fst (get_coordinates_from table ms w) of
      (lats, lons, years, locations) \<Rightarrow>
        length lats = length lons \<and> length lons = length years \<and>
        length years = length locations)"
  unfolding get_coordinates_from_closed by simp

text \<open>
  C8. Two calls of \<^verbatim>\<open>get_coordinates\<close> on the same list of meetings return the same four
  lists: the second call, made in the state the first one left, and a call made in any
  other state. (The table is the static one in each.)
\<close>

theorem get_coordinates_repeatable:
  "fst (get_coordinates ms (snd (get_coordinates ms w))) = fst (get_coordinates ms w) \<and>
   fst (get_coordinates ms w') = fst (get_coordinates ms w)"
  unfolding get_coordinates_def get_coordinates_from_closed by simp

section \<open>Properties of the renderer\<close>

text \<open>
  C7. On four lists of the same length \<open>n\<close>, the rendering in \<^verbatim>\<open>main\<close> and
  \<^verbatim>\<open>plot_meetings\<close> each raise nothing and draw: for every index \<open>i\<close> from 1 to
  \<open>n - 1\<close>, in this order, one arrow from point \<open>i - 1\<close> to point \<open>i\<close>, and no other
  arrow; for every index \<open>i\<close> from 0 to \<open>n - 1\<close>, in this order, one label
  \<^verbatim>\<open>{years[i]}: {locations[i]}\<close> at longitude \<^verbatim>\<open>lons[i] + 0.5\<close> and latitude
  \<^verbatim>\<open>lats[i] + 0.5\<close>, and no other label.
\<close>

theorem renderer_labels_and_arrows:
  assumes "length lons = length lats" "length years = length lats"
    "length locations = length lats"
  shows "(case main_render lats lons years locations w of
      (err, w') \<Rightarrow>
        err = None \<and>
        filter is_arrow (drawn w w') =
          map (\<lambda>i. Annotate '''' (lons ! i, lats ! i) (lons ! (i - 1), lats ! (i - 1))
                     ''->'' ''blue'' Geodetic) [1..<length lats] \<and>
        filter is_label (drawn w w') =
          map (\<lambda>i. Text (Fadd (lons ! i) (Dec 5 1)) (Fadd (lats ! i) (Dec 5 1))
                     (str_int (years ! i) @ '': '' @ locations ! i) Geodetic)
            [0..<length lats]) \<and>
    (case plot_meetings lats lons years locations w of
      (err, w') \<Rightarrow>
        err = None \<and>
        filter is_arrow (drawn w w') =
          map (\<lambda>i. Annotate '''' (lons ! i, lats ! i) (lons ! (i - 1), lats ! (i - 1))
                     ''->'' ''blue'' Geodetic) [1..<length lats] \<and>
        filter is_label (drawn w w') =
          map (\<lambda>i. Text (Fadd (lons ! i) (Dec 5 1)) (Fadd (lats ! i) (Dec 5 1))
                     (str_int (years ! i) @ '': '' @ locations ! i) Geodetic)
            [0..<length lats])"
  unfolding main_render_ok [OF assms] plot_meetings_ok [OF assms]
  by (simp add: drawn_def no_points_in_setup filter_arrow_points filter_label_points
      filter_pos_upt)

theorem renderer_labels_and_arrows_witness:
  "length [Dec (- 1181937) 4, Dec (- 867816) 4] = length [Dec 337701 4, Dec 361627 4] \<and>
   length [1999, 2000 :: int] = length [Dec 337701 4, Dec 361627 4] \<and>
   length [''Long Beach, California'', ''Nashville, Tennessee''] =
     length [Dec 337701 4, Dec 361627 4] \<and>
   (case main_render [Dec 337701 4, Dec 361627 4] [Dec (- 1181937) 4, Dec (- 867816) 4]
           [1999, 2000] [''Long Beach, California'', ''Nashville, Tennessee'']
           \<lparr>files = Map.empty, stdin = [], stdout = [], pyplot = []\<rparr> of
      (err, w') \<Rightarrow>
        err = None \<and>
        filter is_arrow
          (drawn \<lparr>files = Map.empty, stdin = [], stdout = [], pyplot = []\<rparr> w') =
          [Annotate '''' (Dec (- 867816) 4, Dec 361627 4) (Dec (- 1181937) 4, Dec 337701 4)
             ''->'' ''blue'' Geodetic] \<and>
        filter is_label
          (drawn \<lparr>files = Map.empty, stdin = [], stdout = [], pyplot = []\<rparr> w') =
          [Text (Fadd (Dec (- 1181937) 4) (Dec 5 1)) (Fadd (Dec 337701 4) (Dec 5 1))
             ''1999: Long Beach, California'' Geodetic,
           Text (Fadd (Dec (- 867816) 4) (Dec 5 1)) (Fadd (Dec 361627 4) (Dec 5 1))
             ''2000: Nashville, Tennessee'' Geodetic])"
  using renderer_labels_and_arrows [where lats = "[Dec 337701 4, Dec 361627 4]"
      and lons = "[Dec (- 1181937) 4, Dec (- 867816) 4]" and years = "[1999, 2000]"
      and locations = "[''Long Beach, California'', ''Nashville, Tennessee'']"
      and w = "\<lparr>files = Map.empty, stdin = [], stdout = [], pyplot = []\<rparr>"]
  by (simp add: str_int_def str_nat.simps split: prod.splits)

text \<open>
  C9. The join has no statement that raises: it returns for every list of meetings, and
  the four lists it returns are accepted by the renderer (the one in \<^verbatim>\<open>main\<close> and
  \<^verbatim>\<open>plot_meetings\<close>) without an exception. When no record has coordinates, the four
  lists are empty. On four empty lists the renderer raises nothing and makes the calls
  that set the canvas up and the title, with no marker, label or arrow.
\<close>

theorem join_and_empty_render_never_fail:
  "(case get_coordinates_from table ms w of
      ((lats, lons, years, locations), w1) \<Rightarrow>
        fst (main_render lats lons years locations w1) = None \<and>
        fst (plot_meetings lats lons years locations w1) = None) \<and>
   (list_all (\<lambda>(year, city). city = ''Virtual due to COVID-19'' \<or> table city = None) ms \<longrightarrow>
      fst (get_coordinates_from table ms w) = ([], [], [], [])) \<and>
   plot_meetings [] [] [] [] w =
     (None, w\<lparr>pyplot := pyplot w @
        [Figure 15 10, Axes LambertConformal,
         Set_extent [Dec (- 125) 0, Dec (- 665) 1, Dec 20 0, Dec 50 0] Geodetic,
         Add_feature LAND [], Add_feature OCEAN [], Add_feature BORDERS [Linestyle '':''],
         Add_feature LAKES [Alpha (Dec 5 1)], Add_feature RIVERS [], Coastlines ''50m'',
         Title ''Educause Annual Meeting Locations (1999-2024)'', Show]\<rparr>) \<and>
   main_render [] [] [] [] w =
     (None, w\<lparr>pyplot := pyplot w @
        [Figure 15 10, Axes LambertConformal,
         Set_extent [Dec (- 125) 0, Dec (- 665) 1, Dec 20 0, Dec 50 0] Geodetic,
         Add_feature LAND [], Add_feature OCEAN [], Add_feature BORDERS [Linestyle '':''],
         Add_feature LAKES [Alpha (Dec 5 1)], Add_feature RIVERS [], Coastlines ''50m'',
         Title ''Educause Annual Meeting Locations (1999-2024)'']\<rparr>)"
proof -
  have render: "(case get_coordinates_from table ms w of
      ((lats, lons, years, locations), w1) \<Rightarrow>
        fst (main_render lats lons years locations w1) = None \<and>
        fst (plot_meetings lats lons years locations w1) = None)"
    unfolding get_coordinates_from_closed
    by (simp add: main_render_ok plot_meetings_ok)
  have empty:
    "list_all (\<lambda>(year, city). city = ''Virtual due to COVID-19'' \<or> table city = None) ms \<longrightarrow>
      fst (get_coordinates_from table ms w) = ([], [], [], [])"
    unfolding get_coordinates_from_closed
    by (auto simp: list_all_iff filter_empty_conv)
  show ?thesis
    using render empty
    by (simp add: main_render_ok plot_meetings_ok setup_ops_def)
qed

theorem join_and_empty_render_never_fail_witness:
  "list_all (\<lambda>(year, city). city = ''Virtual due to COVID-19'' \<or> city_coords city = None)
     [(2020, ''Virtual due to COVID-19''), (2025, ''Nowhere, Nowhere'')] \<and>
   fst (get_coordinates_from city_coords
     [(2020, ''Virtual due to COVID-19''), (2025, ''Nowhere, Nowhere'')]
     \<lparr>files = Map.empty, stdin = [], stdout = [], pyplot = []\<rparr>) = ([], [], [], []) \<and>
   fst (plot_meetings [] [] [] []
     \<lparr>files = Map.empty, stdin = [], stdout = [], pyplot = []\<rparr>) = None"
proof -
  have h: "list_all (\<lambda>(year, city). city = ''Virtual due to COVID-19'' \<or> city_coords city = None)
     [(2020, ''Virtual due to COVID-19''), (2025, ''Nowhere, Nowhere'')]"
    by (simp add: city_coords_def city_coords_items_def)
  show ?thesis
    using h join_and_empty_render_never_fail [where table = city_coords
      and ms = "[(2020, ''Virtual due to COVID-19''), (2025, ''Nowhere, Nowhere'')]"
      and w = "\<lparr>files = Map.empty, stdin = [], stdout = [], pyplot = []\<rparr>"]
    by simp
qed

text \<open>
  C10. On every four lists, of equal lengths or not, \<^verbatim>\<open>plot_meetings\<close> makes the calls
  that the rendering written out in \<^verbatim>\<open>main\<close> makes, with the same arguments and in the
  same order, and raises where it raises; when nothing is raised, \<^verbatim>\<open>plot_meetings\<close> ends
  with \<^verbatim>\<open>plt.show()\<close>, where \<^verbatim>\<open>main\<close> goes on to \<^verbatim>\<open>plt.savefig\<close>. (\<^verbatim>\<open>main\<close> does not
  call \<^verbatim>\<open>plot_meetings\<close>.)
\<close>

theorem plot_meetings_draws_as_main:
  "plot_meetings lats lons years locations w =
     (case main_render lats lons years locations w of
        (Some e, w') \<Rightarrow> (Some e, w')
      | (None, w') \<Rightarrow> (None, draw Show w'))"
  by (simp add: plot_meetings_def main_render_def plot_meetings_body_eq Let_def
      split: prod.splits option.splits)

theorem plot_meetings_draws_as_main_witness:
  "plot_meetings [Dec 337701 4, Dec 361627 4] [Dec (- 1181937) 4] [1999]
     [''Long Beach, California'']
     \<lparr>files = Map.empty, stdin = [], stdout = [], pyplot = []\<rparr> =
   (Some IndexError,
    \<lparr>files = Map.empty, stdin = [], stdout = [],
     pyplot =
       [Figure 15 10, Axes LambertConformal,
        Set_extent [Dec (- 125) 0, Dec (- 665) 1, Dec 20 0, Dec 50 0] Geodetic,
        Add_feature LAND [], Add_feature OCEAN [], Add_feature BORDERS [Linestyle '':''],
        Add_feature LAKES [Alpha (Dec 5 1)], Add_feature RIVERS [], Coastlines ''50m'',
        Plot (Dec (- 1181937) 4) (Dec 337701 4) ''ro'' 5 Geodetic,
        Text (Fadd (Dec (- 1181937) 4) (Dec 5 1)) (Fadd (Dec 337701 4) (Dec 5 1))
          ''1999: Long Beach, California'' Geodetic]\<rparr>)"
proof -
  have m: "main_render [Dec 337701 4, Dec 361627 4] [Dec (- 1181937) 4] [1999]
     [''Long Beach, California'']
     \<lparr>files = Map.empty, stdin = [], stdout = [], pyplot = []\<rparr> =
   (Some IndexError,
    \<lparr>files = Map.empty, stdin = [], stdout = [],
     pyplot =
       [Figure 15 10, Axes LambertConformal,
        Set_extent [Dec (- 125) 0, Dec (- 665) 1, Dec 20 0, Dec 50 0] Geodetic,
        Add_feature LAND [], Add_feature OCEAN [], Add_feature BORDERS [Linestyle '':''],
        Add_feature LAKES [Alpha (Dec 5 1)], Add_feature RIVERS [], Coastlines ''50m'',
        Plot (Dec (- 1181937) 4) (Dec 337701 4) ''ro'' 5 Geodetic,
        Text (Fadd (Dec (- 1181937) 4) (Dec 5 1)) (Fadd (Dec 337701 4) (Dec 5 1))
          ''1999: Long Beach, California'' Geodetic]\<rparr>)"
    by (simp add: main_render_def main_body_def index_def draw_def Let_def
        str_int_def str_nat.simps upt_conv_Cons)
  show ?thesis
    unfolding plot_meetings_draws_as_main m by simp
qed

section \<open>Properties of the output stage and of the full run\<close>

text \<open>
  C5 (amended). When a file exists at the output path and the answer to the prompt is
  neither \<^verbatim>\<open>y\<close> nor \<^verbatim>\<open>Y\<close>, the run ends by \<^verbatim>\<open>sys.exit(0)\<close>, so with status 0; it has
  written the prompt and then \<^verbatim>\<open>Operation cancelled by the user.\<close> and nothing else;
  it has made no call into the plotting library; and the files are as they were.
\<close>

theorem declined_overwrite_cancels:
  assumes "files w (arg_output args @ ''.'' @ arg_format args) = Some old"
    and "stdin w = answer # rest"
    and "answer \<noteq> ''y''" and "answer \<noteq> ''Y''"
  shows "(case main args w of
      (out, w') \<Rightarrow>
        out = SystemExit 0 \<and> exit_status out = 0 \<and>
        stdout w' = stdout w @
          [''File '' @ [CHR 0x22] @ arg_output args @ ''.'' @ arg_format args @ [CHR 0x22] @
             '' exists. Overwrite? (y/n): '',
           ''Operation cancelled by the user.''] \<and>
        pyplot w' = pyplot w \<and> files w' = files w \<and> stdin w' = rest)"
proof -
  have "confirm_overwrite (arg_output args @ ''.'' @ arg_format args) w =
     (Inr False,
      w\<lparr>stdout := stdout w @
           [''File '' @ [CHR 0x22] @ (arg_output args @ ''.'' @ arg_format args) @ [CHR 0x22] @
              '' exists. Overwrite? (y/n): ''],
        stdin := rest\<rparr>)"
    using confirm_overwrite_asked [OF assms(1,2)] assms(3,4) by simp
  from main_cancelled [OF this] show ?thesis by (simp add: print_def)
qed

theorem declined_overwrite_cancels_witness:
  "(case main \<lparr>arg_output = ''map'', arg_format = ''png''\<rparr>
      \<lparr>files = [''map.png'' \<mapsto> Data ''old''], stdin = [''n''], stdout = [], pyplot = []\<rparr> of
      (out, w') \<Rightarrow>
        out = SystemExit 0 \<and> exit_status out = 0 \<and>
        stdout w' =
          [''File '' @ [CHR 0x22] @ ''map.png'' @ [CHR 0x22] @ '' exists. Overwrite? (y/n): '',
           ''Operation cancelled by the user.''] \<and>
        pyplot w' = [] \<and> files w' ''map.png'' = Some (Data ''old'') \<and> stdin w' = [])"
  using declined_overwrite_cancels
    [where w = "\<lparr>files = [''map.png'' \<mapsto> Data ''old''], stdin = [''n''], stdout = [],
                  pyplot = []\<rparr>"
       and args = "\<lparr>arg_output = ''map'', arg_format = ''png''\<rparr>" and old = "Data ''old''"
       and answer = "''n''" and rest = "[]"]
  by (simp split: prod.splits)

text \<open>
  C5 as it is written fails: the answer \<^verbatim>\<open>Y\<close> is not \<^verbatim>\<open>y\<close>, and it is lowered before
  the comparison, so the run goes on: \<^verbatim>\<open>main\<close> returns, the map is drawn and saved over
  the file, and no cancellation message is written.
\<close>

theorem capital_Y_is_not_declined:
  "''Y'' \<noteq> ''y'' \<and>
   (case main \<lparr>arg_output = ''map'', arg_format = ''png''\<rparr>
      \<lparr>files = [''map.png'' \<mapsto> Data ''old''], stdin = [''Y''], stdout = [], pyplot = []\<rparr> of
      (out, w') \<Rightarrow>
        out = Returned \<and>
        stdout w' =
          [''File '' @ [CHR 0x22] @ ''map.png'' @ [CHR 0x22] @ '' exists. Overwrite? (y/n): '',
           ''Map saved to map.png''] \<and>
        pyplot w' \<noteq> [] \<and> files w' ''map.png'' \<noteq> Some (Data ''old''))"
proof -
  let ?w = "\<lparr>files = [''map.png'' \<mapsto> Data ''old''], stdin = [''Y''], stdout = [], pyplot = []\<rparr>"
  let ?a = "\<lparr>arg_output = ''map'', arg_format = ''png''\<rparr>"
  have "confirm_overwrite (arg_output ?a @ ''.'' @ arg_format ?a) ?w =
     (Inr True,
      ?w\<lparr>stdout := stdout ?w @
           [''File '' @ [CHR 0x22] @ (arg_output ?a @ ''.'' @ arg_format ?a) @ [CHR 0x22] @
              '' exists. Overwrite? (y/n): ''],
        stdin := []\<rparr>)"
    using confirm_overwrite_asked
      [of ?w "arg_output ?a @ ''.'' @ arg_format ?a" "Data ''old''" "''Y''" "[]"]
    by simp
  from main_proceeds [OF this] show ?thesis
    by (simp add: print_def savefig_def draw_def)
qed

text \<open>
  C6. The static list of meetings has 25 records and each of its cities is a key of
  \<^verbatim>\<open>city_coords\<close>. The join of this list returns four lists of 25 entries, and a run of
  \<^verbatim>\<open>main\<close> that gets past the overwrite check returns after drawing exactly 25 markers
  and exactly 24 arrows.
\<close>

theorem full_run_25_points_24_arrows:
  assumes "fst (confirm_overwrite (arg_output args @ ''.'' @ arg_format args) w) = Inr True"
  shows "length meetings = 25 \<and>
    list_all (\<lambda>(year, city). city_coords city \<noteq> None) meetings \<and>
    (case fst (get_coordinates meetings w) of
       (lats, lons, years, locations) \<Rightarrow>
         length lats = 25 \<and> length lons = 25 \<and> length years = 25 \<and> length locations = 25) \<and>
    (case main args w of
       (out, w') \<Rightarrow>
         out = Returned \<and>
         length (filter is_marker (drawn w w')) = 25 \<and>
         length (filter is_arrow (drawn w w')) = 24)"
proof -
  obtain w1 where c:
    "confirm_overwrite (arg_output args @ ''.'' @ arg_format args) w = (Inr True, w1)"
    using assms by (cases "confirm_overwrite (arg_output args @ ''.'' @ arg_format args) w") simp
  have p: "pyplot w1 = pyplot w" using c by (rule confirm_overwrite_pyplot)
  have run: "(case main args w of
       (out, w') \<Rightarrow>
         out = Returned \<and>
         length (filter is_marker (drawn w w')) = 25 \<and>
         length (filter is_arrow (drawn w w')) = 24)"
    unfolding main_proceeds [OF c]
    by (simp add: print_def savefig_def draw_def drawn_def p no_points_in_setup
        filter_marker_points filter_arrow_points filter_pos_upt length_meetings)
  have joined: "(case fst (get_coordinates meetings w) of
       (lats, lons, years, locations) \<Rightarrow>
         length lats = 25 \<and> length lons = 25 \<and> length years = 25 \<and> length locations = 25)"
    by (simp add: get_coordinates_meetings length_meetings)
  from length_meetings meetings_list_all joined run show ?thesis
    by (intro conjI)
qed

theorem full_run_25_points_24_arrows_witness:
  "fst (confirm_overwrite (''educause_meetings_map'' @ ''.'' @ ''pdf'')
      \<lparr>files = Map.empty, stdin = [], stdout = [], pyplot = []\<rparr>) = Inr True \<and>
   (case main \<lparr>arg_output = ''educause_meetings_map'', arg_format = ''pdf''\<rparr>
       \<lparr>files = Map.empty, stdin = [], stdout = [], pyplot = []\<rparr> of
       (out, w') \<Rightarrow>
         out = Returned \<and>
         length (filter is_marker
           (drawn \<lparr>files = Map.empty, stdin = [], stdout = [], pyplot = []\<rparr> w')) = 25 \<and>
         length (filter is_arrow
           (drawn \<lparr>files = Map.empty, stdin = [], stdout = [], pyplot = []\<rparr> w')) = 24)"
proof -
  have h: "fst (confirm_overwrite
      (arg_output \<lparr>arg_output = ''educause_meetings_map'', arg_format = ''pdf''\<rparr> @ ''.'' @
       arg_format \<lparr>arg_output = ''educause_meetings_map'', arg_format = ''pdf''\<rparr>)
      \<lparr>files = Map.empty, stdin = [], stdout = [], pyplot = []\<rparr>) = Inr True"
    by (simp add: confirm_overwrite_def)
  show ?thesis using h full_run_25_points_24_arrows [OF h] by simp
qed

end
